theory Spec2Isabelle
  imports Complex_Main
begin

section \<open>Strings\<close>

text \<open>
  A JavaScript string is modelled as a \<^typ>\<open>string\<close> whose characters stand for the
  UTF-16 code units below 256 (ASCII and the Latin-1 supplement). Case mapping, white
  space and the regular-expression character classes are those of ECMAScript on that
  range. The two letters of the range whose upper-case form lies outside it (code units
  181 and 255) are left unchanged by \<open>toUpperCase\<close>.
\<close>

definition nl :: string where
  "nl = [CHR 0x0A]"

definition ascii_upper :: string where
  "ascii_upper = ''ABCDEFGHIJKLMNOPQRSTUVWXYZ''"

definition ascii_lower :: string where
  "ascii_lower = ''abcdefghijklmnopqrstuvwxyz''"

text \<open>The capital letters of the Latin-1 supplement, and their small forms.\<close>

definition latin1_upper :: string where
  "latin1_upper =
     [CHR 0xC0, CHR 0xC1, CHR 0xC2, CHR 0xC3, CHR 0xC4, CHR 0xC5, CHR 0xC6, CHR 0xC7,
      CHR 0xC8, CHR 0xC9, CHR 0xCA, CHR 0xCB, CHR 0xCC, CHR 0xCD, CHR 0xCE, CHR 0xCF,
      CHR 0xD0, CHR 0xD1, CHR 0xD2, CHR 0xD3, CHR 0xD4, CHR 0xD5, CHR 0xD6, CHR 0xD8,
      CHR 0xD9, CHR 0xDA, CHR 0xDB, CHR 0xDC, CHR 0xDD, CHR 0xDE]"

definition latin1_lower :: string where
  "latin1_lower =
     [CHR 0xE0, CHR 0xE1, CHR 0xE2, CHR 0xE3, CHR 0xE4, CHR 0xE5, CHR 0xE6, CHR 0xE7,
      CHR 0xE8, CHR 0xE9, CHR 0xEA, CHR 0xEB, CHR 0xEC, CHR 0xED, CHR 0xEE, CHR 0xEF,
      CHR 0xF0, CHR 0xF1, CHR 0xF2, CHR 0xF3, CHR 0xF4, CHR 0xF5, CHR 0xF6, CHR 0xF8,
      CHR 0xF9, CHR 0xFA, CHR 0xFB, CHR 0xFC, CHR 0xFD, CHR 0xFE]"

text \<open>
  \<open>translate from to c\<close>: the character of \<open>to\<close> at the place \<open>c\<close> has in
  \<open>from\<close>, and \<open>c\<close> itself when it is not there.
\<close>

fun translate :: "string \<Rightarrow> string \<Rightarrow> char \<Rightarrow> char" where
  "translate (f # fs) (t # ts) c = (if c = f then t else translate fs ts c)"
| "translate fs ts c = c"

definition lower_char :: "char \<Rightarrow> char" where
  "lower_char c = translate (ascii_upper @ latin1_upper) (ascii_lower @ latin1_lower) c"

definition toLowerCase :: "string \<Rightarrow> string" where
  "toLowerCase s = map lower_char s"

text \<open>The sharp s (code unit 223) becomes two letters.\<close>

definition upper_char :: "char \<Rightarrow> string" where
  "upper_char c =
     (if c = CHR 0xDF then ''SS''
      else [translate (ascii_lower @ latin1_lower) (ascii_upper @ latin1_upper) c])"

definition toUpperCase :: "string \<Rightarrow> string" where
  "toUpperCase s = concat (map upper_char s)"

text \<open>White space and line terminators: tab, LF, VT, FF, CR, space, no-break space.\<close>

definition is_space :: "char \<Rightarrow> bool" where
  "is_space c =
     (c \<in> set [CHR 0x09, CHR 0x0A, CHR 0x0B, CHR 0x0C, CHR 0x0D, CHR 0x20, CHR 0xA0])"

definition trim :: "string \<Rightarrow> string" where
  "trim s = rev (dropWhile is_space (rev (dropWhile is_space s)))"

definition is_digit :: "char \<Rightarrow> bool" where
  "is_digit c = (c \<in> set ''0123456789'')"

fun str_includes :: "string \<Rightarrow> string \<Rightarrow> bool" where
  "str_includes [] sub = (sub = [])"
| "str_includes (x # xs) sub = (take (length sub) (x # xs) = sub \<or> str_includes xs sub)"

fun join :: "string \<Rightarrow> string list \<Rightarrow> string" where
  "join sep [] = []"
| "join sep [x] = x"
| "join sep (x # y # ys) = x @ sep @ join sep (y # ys)"

definition digit_char :: "int \<Rightarrow> char" where
  "digit_char d = char_of (48 + d)"

text \<open>The decimal digits of an integer that is not negative.\<close>

function show_int :: "int \<Rightarrow> string" where
  "show_int n =
     (if n < 10 then [digit_char n] else show_int (n div 10) @ [digit_char (n mod 10)])"
  by pat_completeness auto
termination
  by (relation "measure nat") auto

definition show_nat :: "nat \<Rightarrow> string" where
  "show_nat n = show_int (int n)"

text \<open>The value of a string of decimal digits.\<close>

definition parse_digits :: "string \<Rightarrow> int" where
  "parse_digits ds = foldl (\<lambda>a c. 10 * a + ((of_char c :: int) - 48)) 0 ds"

text \<open>\<open>parseInt(ds, 10)\<close> on a string of decimal digits.\<close>

definition parse_nat :: "string \<Rightarrow> nat" where
  "parse_nat ds = nat (parse_digits ds)"


section \<open>Numbers\<close>

text \<open>
  A JavaScript number is a finite value or one of the three special values. Finite
  values are exact rationals: the rounding of IEEE doubles, overflow to infinity and the
  sign of zero are not modelled.
\<close>

datatype jsnum = Fin rat | PInf | NInf | NaN

fun js_neg :: "jsnum \<Rightarrow> jsnum" where
  "js_neg (Fin a) = Fin (- a)"
| "js_neg PInf = NInf"
| "js_neg NInf = PInf"
| "js_neg NaN = NaN"

fun js_sub :: "jsnum \<Rightarrow> jsnum \<Rightarrow> jsnum" where
  "js_sub NaN y = NaN"
| "js_sub x NaN = NaN"
| "js_sub (Fin a) (Fin b) = Fin (a - b)"
| "js_sub (Fin a) y = js_neg y"
| "js_sub PInf PInf = NaN"
| "js_sub NInf NInf = NaN"
| "js_sub x y = x"

text \<open>The sign of a non-zero, non-NaN number: \<open>True\<close> when it is negative.\<close>

fun js_negative :: "jsnum \<Rightarrow> bool" where
  "js_negative (Fin a) = (a < 0)"
| "js_negative NInf = True"
| "js_negative x = False"

definition signed_inf :: "bool \<Rightarrow> jsnum" where
  "signed_inf neg = (if neg then NInf else PInf)"

fun js_div :: "jsnum \<Rightarrow> jsnum \<Rightarrow> jsnum" where
  "js_div NaN y = NaN"
| "js_div x NaN = NaN"
| "js_div (Fin a) (Fin b) =
     (if b = 0 then (if a = 0 then NaN else signed_inf (a < 0)) else Fin (a / b))"
| "js_div (Fin a) y = Fin 0"
| "js_div x (Fin b) = signed_inf (js_negative x \<noteq> (b < 0))"
| "js_div x y = NaN"

fun js_mul :: "jsnum \<Rightarrow> jsnum \<Rightarrow> jsnum" where
  "js_mul NaN y = NaN"
| "js_mul x NaN = NaN"
| "js_mul (Fin a) (Fin b) = Fin (a * b)"
| "js_mul (Fin a) y = (if a = 0 then NaN else signed_inf ((a < 0) \<noteq> js_negative y))"
| "js_mul x (Fin b) = (if b = 0 then NaN else signed_inf (js_negative x \<noteq> (b < 0)))"
| "js_mul x y = signed_inf (js_negative x \<noteq> js_negative y)"

text \<open>\<open>x >= 0\<close>: false for NaN.\<close>

fun js_ge0 :: "jsnum \<Rightarrow> bool" where
  "js_ge0 (Fin a) = (0 \<le> a)"
| "js_ge0 PInf = True"
| "js_ge0 x = False"

definition pow10 :: "bool \<Rightarrow> nat \<Rightarrow> rat \<Rightarrow> rat" where
  "pow10 neg e x = (if neg then x / 10 ^ e else x * 10 ^ e)"

definition parse_exponent :: "string \<Rightarrow> rat \<Rightarrow> rat" where
  "parse_exponent s x =
     (case s of
        [] \<Rightarrow> x
      | c # r \<Rightarrow>
          if c = CHR ''e'' \<or> c = CHR ''E'' then
            (let neg = (take 1 r = ''-'');
                 r' = (if take 1 r = ''-'' \<or> take 1 r = ''+'' then drop 1 r else r);
                 ds = takeWhile is_digit r'
             in if ds = [] then x else pow10 neg (parse_nat ds) x)
          else x)"

definition parse_decimal :: "string \<Rightarrow> rat option" where
  "parse_decimal s =
     (let ip = takeWhile is_digit s; r = dropWhile is_digit s;
          fp = (if take 1 r = ''.'' then takeWhile is_digit (drop 1 r) else []);
          r' = (if take 1 r = ''.'' then dropWhile is_digit (drop 1 r) else r)
      in if ip = [] \<and> fp = [] then None
         else Some (parse_exponent r'
                (of_int (parse_digits ip) + of_int (parse_digits fp) / 10 ^ length fp)))"

text \<open>
  \<open>parseFloat\<close>: leading white space is skipped, the longest prefix that is a decimal
  literal is read, and a string with no such prefix gives NaN.
\<close>

definition parseFloat :: "string \<Rightarrow> jsnum" where
  "parseFloat str =
     (let s = dropWhile is_space str;
          neg = (take 1 s = ''-'');
          r = (if take 1 s = ''-'' \<or> take 1 s = ''+'' then drop 1 s else s)
      in if take 8 r = ''Infinity'' then signed_inf neg
         else case parse_decimal r of
                None \<Rightarrow> NaN
              | Some x \<Rightarrow> Fin (if neg then - x else x))"

function group3 :: "string \<Rightarrow> string" where
  "group3 ds =
     (if length ds \<le> 3 then ds
      else group3 (take (length ds - 3) ds) @ '','' @ drop (length ds - 3) ds)"
  by pat_completeness auto
termination
  by (relation "measure length") auto

definition round_half_up :: "rat \<Rightarrow> int" where
  "round_half_up x = \<lfloor>x + 1 / 2\<rfloor>"

definition two_digits :: "int \<Rightarrow> string" where
  "two_digits n = [digit_char (n div 10), digit_char (n mod 10)]"

definition strip_zeros :: "string \<Rightarrow> string" where
  "strip_zeros ds = rev (dropWhile (\<lambda>c. c = CHR ''0'') (rev ds))"

text \<open>
  Exponent notation, which \<open>toFixed\<close> switches to from \<open>10^21\<close> on. The digits are
  those of the exact value cut to 17 significant digits, not the shortest digits that
  identify the double.
\<close>

definition exp_form :: "rat \<Rightarrow> string" where
  "exp_form x =
     (let ds = show_int \<lfloor>x\<rfloor>; sig = strip_zeros (take 17 ds)
      in take 1 sig @ (if length sig \<le> 1 then [] else ''.'' @ drop 1 sig)
         @ ''e+'' @ show_nat (length ds - 1))"

text \<open>\<open>x.toFixed(2)\<close>.\<close>

fun toFixed2 :: "jsnum \<Rightarrow> string" where
  "toFixed2 NaN = ''NaN''"
| "toFixed2 PInf = ''Infinity''"
| "toFixed2 NInf = ''-Infinity''"
| "toFixed2 (Fin x) =
     (let s = (if x < 0 then ''-'' else ''''); a = \<bar>x\<bar>
      in if 10 ^ 21 \<le> a then s @ exp_form a
         else let n = round_half_up (a * 100)
              in s @ show_int (n div 100) @ ''.'' @ two_digits (n mod 100))"

text \<open>
  \<open>x.toLocaleString("en-US", {minimumFractionDigits: 2, maximumFractionDigits: 2})\<close>.
  The infinity sign is outside the modelled character range and is written as its three
  UTF-8 bytes.
\<close>

fun toLocaleString2 :: "jsnum \<Rightarrow> string" where
  "toLocaleString2 NaN = ''NaN''"
| "toLocaleString2 PInf = [CHR 0xE2, CHR 0x88, CHR 0x9E]"
| "toLocaleString2 NInf = ''-'' @ [CHR 0xE2, CHR 0x88, CHR 0x9E]"
| "toLocaleString2 (Fin x) =
     (let s = (if x < 0 then ''-'' else ''''); n = round_half_up (\<bar>x\<bar> * 100)
      in s @ group3 (show_int (n div 100)) @ ''.'' @ two_digits (n mod 100))"


section \<open>Regular expressions\<close>

text \<open>
  The patterns of \<open>parseQuery\<close> are written in a small abstract syntax and matched
  by a backtracking matcher that returns every way to match, in the order a backtracking
  engine tries them: a greedy quantifier offers the longer match first, a lazy one the
  shorter. The first element is the match that \<open>String.prototype.match\<close> reports.
  All patterns carry the flag \<open>i\<close>, so literals compare modulo ASCII case (without the
  flag \<open>u\<close> no code unit above 127 is equated with an ASCII letter).
\<close>

type_synonym caps = "(nat \<times> string) list"
type_synonym mstate = "string \<times> caps"

datatype rx =
    Lit string
  | Dot
  | Digit
  | Eoi
  | Seq rx rx
  | Alt rx rx
  | Opt rx
  | PlusLazy rx
  | PlusGreedy rx
  | Grp nat rx

definition canon :: "char \<Rightarrow> char" where
  "canon c = translate ascii_lower ascii_upper c"

text \<open>
  A literal at the start of the input: the rest of the input after it, if it is there.
  Two characters agree when they are equal or equal modulo ASCII case.
\<close>

fun lit_prefix :: "string \<Rightarrow> string \<Rightarrow> string option" where
  "lit_prefix [] s = Some s"
| "lit_prefix (c # cs) [] = None"
| "lit_prefix (c # cs) (x # xs) =
     (if (if x = c then True else canon x = canon c) then lit_prefix cs xs else None)"

fun iter_lazy :: "(mstate \<Rightarrow> mstate list) \<Rightarrow> nat \<Rightarrow> mstate \<Rightarrow> mstate list" where
  "iter_lazy f 0 st = []"
| "iter_lazy f (Suc n) st = concat (map (\<lambda>st'. st' # iter_lazy f n st') (f st))"

fun iter_greedy :: "(mstate \<Rightarrow> mstate list) \<Rightarrow> nat \<Rightarrow> mstate \<Rightarrow> mstate list" where
  "iter_greedy f 0 st = []"
| "iter_greedy f (Suc n) st = concat (map (\<lambda>st'. iter_greedy f n st' @ [st']) (f st))"

text \<open>
  \<open>rx_run r (s, c)\<close>: the states after matching \<open>r\<close> at the start of \<open>s\<close>. The two
  quantifiers are applied in the source to single characters only (\<open>.+?\<close> and
  \<open>\d+\<close>), so the number of iterations is bounded by the length of the input.
\<close>

fun rx_run :: "rx \<Rightarrow> mstate \<Rightarrow> mstate list" where
  "rx_run (Lit l) (s, c) = (case lit_prefix l s of None \<Rightarrow> [] | Some s' \<Rightarrow> [(s', c)])"
| "rx_run Dot (s, c) =
     (case s of
        [] \<Rightarrow> []
      | x # xs \<Rightarrow> if x \<in> set [CHR 0x0A, CHR 0x0D] then [] else [(xs, c)])"
| "rx_run Digit (s, c) =
     (case s of [] \<Rightarrow> [] | x # xs \<Rightarrow> if is_digit x then [(xs, c)] else [])"
| "rx_run Eoi (s, c) = (if s = [] then [(s, c)] else [])"
| "rx_run (Seq a b) st = concat (map (rx_run b) (rx_run a st))"
| "rx_run (Alt a b) st = rx_run a st @ rx_run b st"
| "rx_run (Opt a) st = rx_run a st @ [st]"
| "rx_run (PlusLazy a) st = iter_lazy (\<lambda>x. rx_run a x) (length (fst st)) st"
| "rx_run (PlusGreedy a) st = iter_greedy (\<lambda>x. rx_run a x) (length (fst st)) st"
| "rx_run (Grp n a) (s, c) =
     map (\<lambda>(s', c'). (s', (n, take (length s - length s') s) # c')) (rx_run a (s, c))"

text \<open>
  \<open>str.match(r)\<close> for a pattern without the flag \<open>g\<close>: the leftmost start at which
  \<open>r\<close> matches, with its capture groups; \<open>None\<close> is \<open>null\<close>.
\<close>

fun rx_match :: "rx \<Rightarrow> string \<Rightarrow> caps option" where
  "rx_match r [] = (case rx_run r ([], []) of [] \<Rightarrow> None | (_, c) # _ \<Rightarrow> Some c)"
| "rx_match r (x # xs) =
     (case rx_run r (x # xs, []) of [] \<Rightarrow> rx_match r xs | (_, c) # _ \<Rightarrow> Some c)"

text \<open>A capture group that took part in the match, or \<open>None\<close> for \<open>undefined\<close>.\<close>

definition group :: "caps \<Rightarrow> nat \<Rightarrow> string option" where
  "group c n = map_of c n"

definition group_str :: "caps \<Rightarrow> nat \<Rightarrow> string" where
  "group_str c n = (case map_of c n of None \<Rightarrow> [] | Some s \<Rightarrow> s)"

definition coin_end :: rx where
  "coin_end = Alt (Lit ''?'') Eoi"

text \<open>\<^verbatim>\<open>/(?:what is the )?price of (.+?)(?:\?|$)/i\<close>\<close>

definition price_rx :: rx where
  "price_rx =
     Seq (Opt (Lit ''what is the '')) (Seq (Lit ''price of '')
       (Seq (Grp 1 (PlusLazy Dot)) coin_end))"

text \<open>\<^verbatim>\<open>/(?:show me the )?(\d+)?-?day (?:trend|history) of (.+?)(?:\?|$)/i\<close>\<close>

definition trend_rx :: rx where
  "trend_rx =
     Seq (Opt (Lit ''show me the '')) (Seq (Opt (Grp 1 (PlusGreedy Digit)))
       (Seq (Opt (Lit ''-'')) (Seq (Lit ''day '')
         (Seq (Alt (Lit ''trend'') (Lit ''history'')) (Seq (Lit '' of '')
           (Seq (Grp 2 (PlusLazy Dot)) coin_end))))))"

text \<open>\<^verbatim>\<open>/(?:what is the )?volume of (.+?)(?:\?|$)/i\<close>\<close>

definition volume_rx :: rx where
  "volume_rx =
     Seq (Opt (Lit ''what is the '')) (Seq (Lit ''volume of '')
       (Seq (Grp 1 (PlusLazy Dot)) coin_end))"

text \<open>\<^verbatim>\<open>/(?:what is the )?(?:24h |24 hour )?change of (.+?)(?:\?|$)/i\<close>\<close>

definition change_rx :: rx where
  "change_rx =
     Seq (Opt (Lit ''what is the '')) (Seq (Opt (Alt (Lit ''24h '') (Lit ''24 hour '')))
       (Seq (Lit ''change of '') (Seq (Grp 1 (PlusLazy Dot)) coin_end)))"

text \<open>\<^verbatim>\<open>/(?:what is the )?market cap(?:italization)? of (.+?)(?:\?|$)/i\<close>\<close>

definition marketCap_rx :: rx where
  "marketCap_rx =
     Seq (Opt (Lit ''what is the '')) (Seq (Lit ''market cap'')
       (Seq (Opt (Lit ''italization'')) (Seq (Lit '' of '')
         (Seq (Grp 1 (PlusLazy Dot)) coin_end))))"

text \<open>\<^verbatim>\<open>/show me top (\d+) coins?/i\<close>\<close>

definition topCoins_rx :: rx where
  "topCoins_rx =
     Seq (Lit ''show me top '') (Seq (Grp 1 (PlusGreedy Digit))
       (Seq (Lit '' coin'') (Opt (Lit ''s''))))"


section \<open>Classification\<close>

text \<open>
  The rule chain of \<open>parseQuery\<close>: the test of each \<open>if\<close> in source order, with the
  parameters each branch hands to its handler. The day count and the result limit are
  natural numbers (\<open>parseInt\<close> of a digit string).
\<close>

datatype intent =
    Price string
  | Trend string nat
  | Volume string
  | Change string
  | MarketCap string
  | TopList nat
  | Unknown

definition classify :: "string \<Rightarrow> intent" where
  "classify query =
     (let lowerQuery = trim (toLowerCase query)
      in case rx_match price_rx lowerQuery of
           Some priceMatch \<Rightarrow> Price (trim (group_str priceMatch 1))
         | None \<Rightarrow>
      (case rx_match trend_rx lowerQuery of
           Some trendMatch \<Rightarrow>
             Trend (trim (group_str trendMatch 2))
               (case group trendMatch 1 of
                  None \<Rightarrow> 30
                | Some ds \<Rightarrow> if ds = [] then 30 else parse_nat ds)
         | None \<Rightarrow>
      (case rx_match volume_rx lowerQuery of
           Some volumeMatch \<Rightarrow> Volume (trim (group_str volumeMatch 1))
         | None \<Rightarrow>
      (case rx_match change_rx lowerQuery of
           Some changeMatch \<Rightarrow> Change (trim (group_str changeMatch 1))
         | None \<Rightarrow>
      (case rx_match marketCap_rx lowerQuery of
           Some marketCapMatch \<Rightarrow> MarketCap (trim (group_str marketCapMatch 1))
         | None \<Rightarrow>
      (case rx_match topCoins_rx lowerQuery of
           Some topCoinsMatch \<Rightarrow> TopList (parse_nat (group_str topCoinsMatch 1))
         | None \<Rightarrow> Unknown))))))"


section \<open>Data model\<close>

text \<open>
  Rows of the tables \<open>coins\<close> and \<open>historical_prices\<close> as the query builder returns
  them: \<open>decimal\<close> columns arrive as strings, nullable columns may be \<open>null\<close>, and a
  time stamp is a number of milliseconds. The serial keys and \<open>lastUpdated\<close>, which
  the parser never reads, are left out.
\<close>

record coin_row =
  coingeckoId :: string
  symbol :: string
  name :: string
  currentPrice :: "string option"
  marketCap :: "int option"
  priceChange24h :: "string option"
  volume24h :: "string option"

record history_row =
  coinId :: string
  timestamp :: int
  price :: string

text \<open>The local store: the two tables, and whether a query on it succeeds or rejects.\<close>

record db =
  coins :: "coin_row list"
  historicalPrices :: "history_row list"
  db_up :: bool

text \<open>\<open>CoinMarketData\<close> of the provider, and an entry of its coin index.\<close>

record CoinMarketData =
  md_id :: string
  md_symbol :: string
  md_name :: string
  current_price :: jsnum
  market_cap :: jsnum
  price_change_percentage_24h :: jsnum
  total_volume :: jsnum
  last_updated :: string

record index_coin =
  ix_id :: string
  ix_symbol :: string
  ix_name :: string

record HistoricalPricePoint =
  hp_timestamp :: rat
  hp_price :: rat

datatype error =
    AxiosError "nat option"
  | DbError
  | RedisError
  | Error string

text \<open>\<open>axiosError.response?.status\<close>\<close>

fun response_status :: "error \<Rightarrow> nat option" where
  "response_status (AxiosError st) = st"
| "response_status e = None"

datatype request =
    CoinsList
  | CoinsMarkets string
  | MarketChart string nat

datatype event =
    Request request
  | Sleep nat

text \<open>
  The collaborators a request runs against. A response of the provider may depend on
  everything that happened before it (the requests made and the time slept), so each
  endpoint is a function of the trace so far. \<open>hasRedis\<close> is the module constant of
  the cache; the two predicates say for which keys the store's \<open>get\<close> and \<open>setex\<close>
  reject. \<open>now\<close> is the clock in milliseconds.
\<close>

record env =
  hasRedis :: bool
  redis_get_throws :: "string \<Rightarrow> bool"
  redis_setex_throws :: "string \<Rightarrow> bool"
  coins_list :: "event list \<Rightarrow> error + index_coin list"
  coins_markets :: "event list \<Rightarrow> string \<Rightarrow> error + CoinMarketData list"
  market_chart :: "event list \<Rightarrow> string \<Rightarrow> nat \<Rightarrow> error + (rat \<times> rat) list option"
  now :: int

text \<open>
  What a request changes: the content of the cache store (each value with the TTL it
  was stored with; no time passes between the operations of one run, so nothing
  expires) and the trace of provider requests and sleeps.
\<close>

record world =
  store :: "string \<rightharpoonup> (CoinMarketData option \<times> nat)"
  trace :: "event list"

text \<open>
  What \<open>parseQuery\<close> returns: the answer and the optional \<open>data\<close>, which is
  \<open>{coinId, coinName, days, history}\<close> for a trend and the rows for a top list.
\<close>

datatype payload =
    TrendData string string nat "(int \<times> jsnum) list"
  | TopCoinsData "coin_row list"

record result =
  answer :: string
  data :: "payload option"


section \<open>Promises\<close>

text \<open>
  An asynchronous operation takes the world and returns the changed world with either
  the value it resolves to (\<open>Inr\<close>) or the error it rejects with (\<open>Inl\<close>).
\<close>

type_synonym 'a promise = "world \<Rightarrow> (error + 'a) \<times> world"

definition resolve :: "'a \<Rightarrow> 'a promise" where
  "resolve v w = (Inr v, w)"

definition reject :: "error \<Rightarrow> 'a promise" where
  "reject err w = (Inl err, w)"

text \<open>\<open>const x = await m; k x\<close>\<close>

definition await :: "'a promise \<Rightarrow> ('a \<Rightarrow> 'b promise) \<Rightarrow> 'b promise" where
  "await m k w = (case m w of (Inl err, w') \<Rightarrow> (Inl err, w') | (Inr v, w') \<Rightarrow> k v w')"

text \<open>\<open>try { body } catch (error) { handler }\<close>\<close>

definition try_catch :: "'a promise \<Rightarrow> (error \<Rightarrow> 'a promise) \<Rightarrow> 'a promise" where
  "try_catch body handler w =
     (case body w of (Inl err, w') \<Rightarrow> handler err w' | (Inr v, w') \<Rightarrow> (Inr v, w'))"


section \<open>Cache gateway\<close>

definition CACHE_TTL_COINS :: nat where "CACHE_TTL_COINS = 60"
definition CACHE_TTL_HISTORY :: nat where "CACHE_TTL_HISTORY = 300"
definition CACHE_TTL_SEARCH :: nat where "CACHE_TTL_SEARCH = 3600"

definition getCacheKey :: "string \<Rightarrow> string list \<Rightarrow> string" where
  "getCacheKey type args = ''crypto:'' @ type @ '':'' @ join '':'' args"

text \<open>
  The store's client: \<open>get\<close> gives \<open>null\<close> for a key that is not there and the stored
  value otherwise (a stored \<open>null\<close> reads back as \<open>null\<close>); \<open>setex\<close> stores the value
  with its TTL. A call that rejects leaves the store as it was.
\<close>

definition redis_get :: "env \<Rightarrow> string \<Rightarrow> CoinMarketData option promise" where
  "redis_get e key w =
     (if redis_get_throws e key then (Inl RedisError, w)
      else (Inr (case store w key of None \<Rightarrow> None | Some (v, ttl) \<Rightarrow> v), w))"

definition redis_setex :: "env \<Rightarrow> string \<Rightarrow> nat \<Rightarrow> CoinMarketData option \<Rightarrow> unit promise" where
  "redis_setex e key ttl v w =
     (if redis_setex_throws e key then (Inl RedisError, w)
      else (Inr (), w\<lparr>store := (store w)(key \<mapsto> (v, ttl))\<rparr>))"

definition getCached :: "env \<Rightarrow> string \<Rightarrow> CoinMarketData option promise" where
  "getCached e key =
     (if \<not> hasRedis e then resolve None
      else try_catch (await (redis_get e key) (\<lambda>data. resolve data))
             (\<lambda>error. resolve None))"

definition setCached :: "env \<Rightarrow> string \<Rightarrow> CoinMarketData option \<Rightarrow> nat \<Rightarrow> unit promise" where
  "setCached e key v ttl =
     (if \<not> hasRedis e then resolve ()
      else try_catch (await (redis_setex e key ttl v) (\<lambda>_. resolve ()))
             (\<lambda>error. resolve ()))"


section \<open>Remote client\<close>

definition sleep :: "nat \<Rightarrow> unit promise" where
  "sleep ms w = (Inr (), w\<lparr>trace := trace w @ [Sleep ms]\<rparr>)"

text \<open>
  \<open>retry\<close>: the body of the \<open>for\<close> loop from counter \<open>i\<close> on. The test
  \<open>i === retries - 1\<close> is only reached with \<open>i < retries\<close>, where the subtraction
  on natural numbers is exact.
\<close>

function retry_from :: "nat \<Rightarrow> 'a promise \<Rightarrow> nat \<Rightarrow> nat \<Rightarrow> 'a promise" where
  "retry_from i fn retries delay w =
     (if i < retries then
        (case fn w of
           (Inr v, w') \<Rightarrow> (Inr v, w')
         | (Inl err, w') \<Rightarrow>
             if response_status err \<noteq> Some 429 \<or> i = retries - 1 then (Inl err, w')
             else (let waitTime = delay * 2 ^ i
                   in retry_from (Suc i) fn retries delay (snd (sleep waitTime w'))))
      else (Inl (Error ''Max retries exceeded''), w))"
  by pat_completeness auto
termination
  by (relation "measure (\<lambda>(i, fn, retries, delay, w). retries - i)") auto

definition retry :: "'a promise \<Rightarrow> nat \<Rightarrow> nat \<Rightarrow> 'a promise" where
  "retry fn retries delay = retry_from 0 fn retries delay"

text \<open>The three calls of \<open>axios.get\<close>: each is recorded in the trace.\<close>

definition get_coins_list :: "env \<Rightarrow> index_coin list promise" where
  "get_coins_list e w = (coins_list e (trace w), w\<lparr>trace := trace w @ [Request CoinsList]\<rparr>)"

definition get_coins_markets :: "env \<Rightarrow> string \<Rightarrow> CoinMarketData list promise" where
  "get_coins_markets e ids w =
     (coins_markets e (trace w) ids, w\<lparr>trace := trace w @ [Request (CoinsMarkets ids)]\<rparr>)"

definition get_market_chart :: "env \<Rightarrow> string \<Rightarrow> nat \<Rightarrow> (rat \<times> rat) list option promise" where
  "get_market_chart e coinId' days w =
     (market_chart e (trace w) coinId' days,
      w\<lparr>trace := trace w @ [Request (MarketChart coinId' days)]\<rparr>)"

definition fetchCoinHistory :: "env \<Rightarrow> string \<Rightarrow> nat \<Rightarrow> HistoricalPricePoint list promise" where
  "fetchCoinHistory e coinId' days =
     retry
       (await (get_market_chart e coinId' days) (\<lambda>response_prices.
          let prices = (case response_prices of None \<Rightarrow> [] | Some ps \<Rightarrow> ps)
          in resolve (map (\<lambda>(t, p). \<lparr>hp_timestamp = t, hp_price = p\<rparr>) prices)))
       3 10000"

text \<open>The two \<open>find\<close> calls of \<open>searchCoin\<close>, joined by \<open>||\<close>.\<close>

definition matchCoin :: "index_coin list \<Rightarrow> string \<Rightarrow> index_coin option" where
  "matchCoin cs lowerQuery =
     (case find (\<lambda>coin. toLowerCase (ix_id coin) = lowerQuery
                     \<or> toLowerCase (ix_symbol coin) = lowerQuery
                     \<or> toLowerCase (ix_name coin) = lowerQuery) cs of
        Some coin \<Rightarrow> Some coin
      | None \<Rightarrow>
          find (\<lambda>coin. str_includes (toLowerCase (ix_name coin)) lowerQuery
                     \<or> str_includes (toLowerCase (ix_symbol coin)) lowerQuery) cs)"

definition searchCoin :: "env \<Rightarrow> string \<Rightarrow> CoinMarketData option promise" where
  "searchCoin e query =
     try_catch
       (let cacheKey = getCacheKey ''search'' [trim (toLowerCase query)]
        in await (getCached e cacheKey) (\<lambda>cached.
             case cached of
               Some c \<Rightarrow> resolve (Some c)
             | None \<Rightarrow>
                 await (get_coins_list e) (\<lambda>cs.
                   let lowerQuery = trim (toLowerCase query)
                   in case matchCoin cs lowerQuery of
                        None \<Rightarrow>
                          await (setCached e cacheKey None CACHE_TTL_SEARCH) (\<lambda>_. resolve None)
                      | Some matchedCoin \<Rightarrow>
                          await (get_coins_markets e (ix_id matchedCoin)) (\<lambda>marketResponse.
                            let result = (case marketResponse of [] \<Rightarrow> None | m # _ \<Rightarrow> Some m)
                            in await (setCached e cacheKey result CACHE_TTL_SEARCH)
                                 (\<lambda>_. resolve result)))))
       (\<lambda>error. resolve None)"

section \<open>Local store\<close>

text \<open>
  The three queries of the parser. A query on a store that is down rejects.
  Rows with equal sort keys come in table order, where SQL leaves the order open;
  \<open>ORDER BY market_cap DESC\<close> puts the rows without a market cap first.
\<close>

text \<open>\<open>db.select().from(coins).where(eq(coins.coingeckoId, x)).limit(1)\<close>\<close>

definition select_coin :: "db \<Rightarrow> string \<Rightarrow> coin_row list promise" where
  "select_coin d x =
     (if db_up d then resolve (take 1 (filter (\<lambda>c. coingeckoId c = x) (coins d)))
      else reject DbError)"

definition select_history :: "db \<Rightarrow> string \<Rightarrow> int \<Rightarrow> history_row list promise" where
  "select_history d x startDate =
     (if db_up d then
        resolve (take 100 (rev (sort_key timestamp
          (filter (\<lambda>h. coinId h = x \<and> startDate \<le> timestamp h) (historicalPrices d)))))
      else reject DbError)"

definition select_top :: "db \<Rightarrow> nat \<Rightarrow> coin_row list promise" where
  "select_top d limit =
     (if db_up d then
        resolve (take limit
          (filter (\<lambda>c. marketCap c = None) (coins d) @
           rev (sort_key (\<lambda>c. case marketCap c of None \<Rightarrow> 0 | Some m \<Rightarrow> m)
             (filter (\<lambda>c. marketCap c \<noteq> None) (coins d)))))
      else reject DbError)"

text \<open>\<open>s || "0"\<close> on a nullable string, and on a string.\<close>

definition or_zero :: "string option \<Rightarrow> string" where
  "or_zero s = (case s of None \<Rightarrow> ''0'' | Some v \<Rightarrow> if v = [] then ''0'' else v)"

definition str_or_zero :: "string \<Rightarrow> string" where
  "str_or_zero v = (if v = [] then ''0'' else v)"


section \<open>Query parser\<close>

definition apos :: string where
  "apos = [CHR 0x27]"

definition not_found :: "string \<Rightarrow> string" where
  "not_found coinName =
     ''Sorry, I couldn'' @ apos @ ''t find information about '' @ coinName
       @ ''. Please check the spelling and try again.''"

definition handlePriceQuery :: "env \<Rightarrow> string \<Rightarrow> db \<Rightarrow> result promise" where
  "handlePriceQuery e coinName d =
     try_catch
       (await (select_coin d (toLowerCase coinName)) (\<lambda>coin.
          case coin of
            c # _ \<Rightarrow>
              let price' = parseFloat (or_zero (currentPrice c))
              in resolve \<lparr>answer = ''The current price of '' @ name c @ '' (''
                     @ toUpperCase (symbol c) @ '') is $'' @ toLocaleString2 price',
                   data = None\<rparr>
          | [] \<Rightarrow>
              await (searchCoin e coinName) (\<lambda>marketData.
                case marketData of
                  Some m \<Rightarrow>
                    resolve \<lparr>answer = ''The current price of '' @ md_name m @ '' (''
                        @ toUpperCase (md_symbol m) @ '') is $''
                        @ toLocaleString2 (current_price m),
                      data = None\<rparr>
                | None \<Rightarrow> resolve \<lparr>answer = not_found coinName, data = None\<rparr>)))
       (\<lambda>error. resolve \<lparr>answer =
          ''Sorry, I encountered an error while fetching the price. Please try again later.'',
          data = None\<rparr>)"

definition handleTrendQuery :: "env \<Rightarrow> string \<Rightarrow> nat \<Rightarrow> db \<Rightarrow> result promise" where
  "handleTrendQuery e coinName days d =
     try_catch
       (await (select_coin d (toLowerCase coinName)) (\<lambda>coin.
          case coin of
            [] \<Rightarrow>
              await (searchCoin e coinName) (\<lambda>marketData.
                case marketData of
                  None \<Rightarrow> resolve \<lparr>answer = not_found coinName, data = None\<rparr>
                | Some m \<Rightarrow>
                    resolve \<lparr>answer = ''I found '' @ md_name m @ '', but I don'' @ apos
                        @ ''t have '' @ show_nat days @ ''-day historical data for it. ''
                        @ ''Please select it from the dashboard to view the chart.'',
                      data = None\<rparr>)
          | c # _ \<Rightarrow>
              let startDate = now e - int days * 86400000
              in await (select_history d (coingeckoId c) startDate) (\<lambda>history.
                   if length history = 0 then
                     resolve \<lparr>answer = ''I found '' @ name c @ '', but I don'' @ apos
                         @ ''t have '' @ show_nat days @ ''-day historical data for it yet. ''
                         @ ''The data may still be loading.'',
                       data = None\<rparr>
                   else
                     let prices = map (\<lambda>h. parseFloat (str_or_zero (price h))) history;
                         currentPrice' = prices ! 0;
                         pastPrice = prices ! (length prices - 1);
                         change =
                           js_mul (js_div (js_sub currentPrice' pastPrice) pastPrice) (Fin 100)
                     in resolve \<lparr>answer = ''Here'' @ apos @ ''s the '' @ show_nat days
                            @ ''-day trend for '' @ name c
                            @ '': The price changed from $'' @ toFixed2 pastPrice
                            @ '' to $'' @ toFixed2 currentPrice' @ '', a ''
                            @ (if js_ge0 change then ''+'' else []) @ toFixed2 change
                            @ ''% change.'',
                          data = Some (TrendData (coingeckoId c) (name c) days
                            (map (\<lambda>h. (timestamp h, parseFloat (str_or_zero (price h))))
                               history))\<rparr>)))
       (\<lambda>error. resolve \<lparr>answer =
          ''Sorry, I encountered an error while fetching the trend. Please try again later.'',
          data = None\<rparr>)"

definition handleVolumeQuery :: "env \<Rightarrow> string \<Rightarrow> db \<Rightarrow> result promise" where
  "handleVolumeQuery e coinName d =
     try_catch
       (await (select_coin d (toLowerCase coinName)) (\<lambda>coin.
          case coin of
            c # _ \<Rightarrow>
              let volume = parseFloat (or_zero (volume24h c))
              in resolve \<lparr>answer = ''The 24-hour trading volume of '' @ name c @ '' (''
                     @ toUpperCase (symbol c) @ '') is $'' @ toLocaleString2 volume,
                   data = None\<rparr>
          | [] \<Rightarrow>
              await (searchCoin e coinName) (\<lambda>marketData.
                case marketData of
                  Some m \<Rightarrow>
                    resolve \<lparr>answer = ''The 24-hour trading volume of '' @ md_name m @ '' (''
                        @ toUpperCase (md_symbol m) @ '') is $''
                        @ toLocaleString2 (total_volume m),
                      data = None\<rparr>
                | None \<Rightarrow> resolve \<lparr>answer = not_found coinName, data = None\<rparr>)))
       (\<lambda>error. resolve \<lparr>answer =
          ''Sorry, I encountered an error while fetching the volume. Please try again later.'',
          data = None\<rparr>)"

definition handleChangeQuery :: "env \<Rightarrow> string \<Rightarrow> db \<Rightarrow> result promise" where
  "handleChangeQuery e coinName d =
     try_catch
       (await (select_coin d (toLowerCase coinName)) (\<lambda>coin.
          case coin of
            c # _ \<Rightarrow>
              let change = parseFloat (or_zero (priceChange24h c));
                  sign = (if js_ge0 change then ''+'' else [])
              in resolve \<lparr>answer = ''The 24-hour price change of '' @ name c @ '' (''
                     @ toUpperCase (symbol c) @ '') is '' @ sign @ toFixed2 change @ ''%'',
                   data = None\<rparr>
          | [] \<Rightarrow>
              await (searchCoin e coinName) (\<lambda>marketData.
                case marketData of
                  Some m \<Rightarrow>
                    let sign = (if js_ge0 (price_change_percentage_24h m) then ''+'' else [])
                    in resolve \<lparr>answer = ''The 24-hour price change of '' @ md_name m @ '' (''
                           @ toUpperCase (md_symbol m) @ '') is '' @ sign
                           @ toFixed2 (price_change_percentage_24h m) @ ''%'',
                         data = None\<rparr>
                | None \<Rightarrow> resolve \<lparr>answer = not_found coinName, data = None\<rparr>)))
       (\<lambda>error. resolve \<lparr>answer =
          ''Sorry, I encountered an error while fetching the change. Please try again later.'',
          data = None\<rparr>)"

definition handleMarketCapQuery :: "env \<Rightarrow> string \<Rightarrow> db \<Rightarrow> result promise" where
  "handleMarketCapQuery e coinName d =
     try_catch
       (await (select_coin d (toLowerCase coinName)) (\<lambda>coin.
          case coin of
            c # _ \<Rightarrow>
              let marketCap' = (case marketCap c of None \<Rightarrow> 0 | Some v \<Rightarrow> v)
              in resolve \<lparr>answer = ''The market capitalization of '' @ name c @ '' (''
                     @ toUpperCase (symbol c) @ '') is $''
                     @ toLocaleString2 (Fin (of_int marketCap')),
                   data = None\<rparr>
          | [] \<Rightarrow>
              await (searchCoin e coinName) (\<lambda>marketData.
                case marketData of
                  Some m \<Rightarrow>
                    resolve \<lparr>answer = ''The market capitalization of '' @ md_name m @ '' (''
                        @ toUpperCase (md_symbol m) @ '') is $''
                        @ toLocaleString2 (market_cap m),
                      data = None\<rparr>
                | None \<Rightarrow> resolve \<lparr>answer = not_found coinName, data = None\<rparr>)))
       (\<lambda>error. resolve \<lparr>answer =
          ''Sorry, I encountered an error while fetching the market cap. Please try again later.'',
          data = None\<rparr>)"

text \<open>One line of the ranking: \<open>index\<close> counts from 0.\<close>

definition coin_line :: "nat \<Rightarrow> coin_row \<Rightarrow> string" where
  "coin_line index c =
     show_nat (index + 1) @ ''. '' @ name c @ '' ('' @ toUpperCase (symbol c) @ '') - $''
       @ toFixed2 (parseFloat (or_zero (currentPrice c)))"

definition handleTopCoinsQuery :: "nat \<Rightarrow> db \<Rightarrow> result promise" where
  "handleTopCoinsQuery limit d =
     try_catch
       (await (select_top d limit) (\<lambda>topCoins.
          if length topCoins = 0 then
            resolve \<lparr>answer = ''I don'' @ apos @ ''t have any coin data yet. ''
                @ ''Please run the database seeding script first.'',
              data = None\<rparr>
          else
            let coinList = join nl (map (\<lambda>(index, c). coin_line index c)
                                     (zip [0 ..< length topCoins] topCoins))
            in resolve \<lparr>answer = ''Here are the top '' @ show_nat limit
                   @ '' coins by market cap:'' @ nl @ coinList,
                 data = Some (TopCoinsData topCoins)\<rparr>))
       (\<lambda>error. resolve \<lparr>answer =
          ''Sorry, I encountered an error while fetching the top coins. Please try again later.'',
          data = None\<rparr>)"

definition help_text :: string where
  "help_text =
     ''Sorry, I can'' @ apos @ ''t answer that. Try asking:'' @ nl
     @ ''- '' @ apos @ ''What is the price of Bitcoin?'' @ apos @ nl
     @ ''- '' @ apos @ ''Show me the 7-day trend of Ethereum'' @ apos @ nl
     @ ''- '' @ apos @ ''What is the volume of Bitcoin?'' @ apos @ nl
     @ ''- '' @ apos @ ''Show me top 5 coins'' @ apos"

text \<open>
  \<open>parseQuery\<close>: each branch of the rule chain returns what its handler returns; the
  last one returns the help text.
\<close>

definition parseQuery :: "env \<Rightarrow> string \<Rightarrow> db \<Rightarrow> result promise" where
  "parseQuery e query d =
     (case classify query of
        Price coinName \<Rightarrow> handlePriceQuery e coinName d
      | Trend coinName days \<Rightarrow> handleTrendQuery e coinName days d
      | Volume coinName \<Rightarrow> handleVolumeQuery e coinName d
      | Change coinName \<Rightarrow> handleChangeQuery e coinName d
      | MarketCap coinName \<Rightarrow> handleMarketCapQuery e coinName d
      | TopList limit \<Rightarrow> handleTopCoinsQuery limit d
      | Unknown \<Rightarrow> resolve \<lparr>answer = help_text, data = None\<rparr>)"

section \<open>The rule table\<close>

text \<open>
  The classifier as an ordered table of rules, in the priority order Price, Trend,
  Volume, Change, MarketCap, TopList. \<open>matching_rules\<close> lists, in that order, the
  rules whose pattern matches the normalised query. It is what \<open>classify\<close> is compared
  with, not part of the program.
\<close>

datatype tag = PriceTag | TrendTag | VolumeTag | ChangeTag | MarketCapTag | TopListTag
  | UnknownTag

definition rule_table :: "(tag \<times> rx) list" where
  "rule_table =
     [(PriceTag, price_rx), (TrendTag, trend_rx), (VolumeTag, volume_rx),
      (ChangeTag, change_rx), (MarketCapTag, marketCap_rx), (TopListTag, topCoins_rx)]"

definition rule_matches :: "string \<Rightarrow> tag \<times> rx \<Rightarrow> bool" where
  "rule_matches query rule =
     (case rx_match (snd rule) (trim (toLowerCase query)) of None \<Rightarrow> False | Some m \<Rightarrow> True)"

definition matching_rules :: "string \<Rightarrow> tag list" where
  "matching_rules query = map fst (filter (rule_matches query) rule_table)"

fun intent_tag :: "intent \<Rightarrow> tag" where
  "intent_tag (Price coinName) = PriceTag"
| "intent_tag (Trend coinName days) = TrendTag"
| "intent_tag (Volume coinName) = VolumeTag"
| "intent_tag (Change coinName) = ChangeTag"
| "intent_tag (MarketCap coinName) = MarketCapTag"
| "intent_tag (TopList limit) = TopListTag"
| "intent_tag Unknown = UnknownTag"


section \<open>Reading a trace\<close>

fun sleeps :: "event list \<Rightarrow> nat list" where
  "sleeps [] = []"
| "sleeps (Sleep n # es) = n # sleeps es"
| "sleeps (Request r # es) = sleeps es"

fun requests :: "event list \<Rightarrow> request list" where
  "requests [] = []"
| "requests (Sleep n # es) = requests es"
| "requests (Request r # es) = r # requests es"


section \<open>Scenarios\<close>

text \<open>A provider that answers every request with HTTP 429, and no cache store.\<close>

definition rate_limited_env :: env where
  "rate_limited_env =
     \<lparr>hasRedis = False,
      redis_get_throws = (\<lambda>key. False),
      redis_setex_throws = (\<lambda>key. False),
      coins_list = (\<lambda>t. Inl (AxiosError (Some 429))),
      coins_markets = (\<lambda>t ids. Inl (AxiosError (Some 429))),
      market_chart = (\<lambda>t c n. Inl (AxiosError (Some 429))),
      now = 1700000000000\<rparr>"

text \<open>A configured cache store whose every call rejects.\<close>

definition failing_cache_env :: env where
  "failing_cache_env =
     \<lparr>hasRedis = True,
      redis_get_throws = (\<lambda>key. True),
      redis_setex_throws = (\<lambda>key. True),
      coins_list = (\<lambda>t. Inl (AxiosError None)),
      coins_markets = (\<lambda>t ids. Inl (AxiosError None)),
      market_chart = (\<lambda>t c n. Inl (AxiosError None)),
      now = 1700000000000\<rparr>"

text \<open>
  A working cache store and a provider whose index holds Bitcoin alone, at a price that
  differs from the one in the local store.
\<close>

definition bitcoin_market :: CoinMarketData where
  "bitcoin_market =
     \<lparr>md_id = ''bitcoin'', md_symbol = ''btc'', md_name = ''Bitcoin'',
      current_price = Fin (4512345 / 100), market_cap = Fin 880000000000,
      price_change_percentage_24h = Fin (- 5 / 4), total_volume = Fin 25000000000,
      last_updated = ''2023-11-14T22:13:20.000Z''\<rparr>"

definition sample_env :: env where
  "sample_env =
     \<lparr>hasRedis = True,
      redis_get_throws = (\<lambda>key. False),
      redis_setex_throws = (\<lambda>key. False),
      coins_list =
        (\<lambda>t. Inr [\<lparr>ix_id = ''bitcoin'', ix_symbol = ''btc'', ix_name = ''Bitcoin''\<rparr>]),
      coins_markets = (\<lambda>t ids. Inr [bitcoin_market]),
      market_chart = (\<lambda>t c n. Inr (Some [])),
      now = 1700000000000\<rparr>"

definition empty_world :: world where
  "empty_world = \<lparr>store = Map.empty, trace = []\<rparr>"

definition bitcoin_row :: coin_row where
  "bitcoin_row =
     \<lparr>coingeckoId = ''bitcoin'', symbol = ''btc'', name = ''Bitcoin'',
      currentPrice = Some ''45000.50'', marketCap = Some 900000000000,
      priceChange24h = Some ''-2.5000'', volume24h = Some ''1234567.8912''\<rparr>"

text \<open>
  A local store that holds Bitcoin with two history points in the last week: the older
  one at price 0, the newer one at price 50.
\<close>

definition sample_db :: db where
  "sample_db =
     \<lparr>coins = [bitcoin_row],
      historicalPrices =
        [\<lparr>coinId = ''bitcoin'', timestamp = 1699900000000, price = ''0.0000000000''\<rparr>,
         \<lparr>coinId = ''bitcoin'', timestamp = 1699990000000, price = ''50.0000000000''\<rparr>],
      db_up = True\<rparr>"

text \<open>A local store whose only history point of Bitcoin has price 0.\<close>

definition zero_price_db :: db where
  "zero_price_db =
     \<lparr>coins = [bitcoin_row],
      historicalPrices =
        [\<lparr>coinId = ''bitcoin'', timestamp = 1699990000000, price = ''0.0000000000''\<rparr>],
      db_up = True\<rparr>"

text \<open>A local store that is down.\<close>

definition broken_db :: db where
  "broken_db = \<lparr>coins = [], historicalPrices = [], db_up = False\<rparr>"


section \<open>Properties\<close>

subsection \<open>Helper facts\<close>

lemma try_catch_resolves:
  "\<exists>r w'. try_catch body (\<lambda>err. resolve x) w = (Inr r, w')"
  by (cases "body w" rule: prod.exhaust; cases "fst (body w)")
     (auto simp: try_catch_def resolve_def)

lemma find_Some_take_filter:
  "find P xs = Some c \<Longrightarrow> take (Suc 0) (filter P xs) = [c]"
  by (induction xs) (auto split: if_splits)

lemma select_coin_hit:
  "db_up d \<Longrightarrow> find (\<lambda>c. coingeckoId c = x) (coins d) = Some c \<Longrightarrow>
   select_coin d x w = (Inr [c], w)"
  by (simp add: select_coin_def resolve_def find_Some_take_filter)



lemma bitcoin_row_found:
  "find (\<lambda>c. coingeckoId c = toLowerCase ''Bitcoin'') (coins sample_db) = Some bitcoin_row"
  by code_simp

lemma bitcoin_price_text:
  "toLocaleString2 (parseFloat (or_zero (Some ''45000.50''))) = ''45,000.50''"
  by code_simp

lemma btc_upper: "toUpperCase ''btc'' = ''BTC''"
  by code_simp

subsection \<open>Retry schedule of the history fetch\<close>

text \<open>
  C1, as the claim states it, fails: against a provider that always answers 429 the
  wrapper sleeps twice, 10 s and 20 s, and makes three requests; there is no 40 s wait
  and no fourth attempt.
\<close>

theorem C1_counterexample:
  "sleeps (trace (snd (fetchCoinHistory rate_limited_env ''bitcoin'' 30 empty_world)))
     = [10000, 20000] \<and>
   sleeps (trace (snd (fetchCoinHistory rate_limited_env ''bitcoin'' 30 empty_world)))
     \<noteq> [10000, 20000, 40000] \<and>
   length (requests (trace (snd (fetchCoinHistory rate_limited_env ''bitcoin'' 30 empty_world))))
     = 3"
  by (simp add: fetchCoinHistory_def retry_def retry_from.simps [of _ _ 3]
        await_def get_market_chart_def sleep_def rate_limited_env_def empty_world_def)

text \<open>
  C1, amended: when every attempt of a history fetch is answered with HTTP 429, the
  retry wrapper makes exactly three requests, waits 10 s after the first failure and
  20 s after the second, and rejects with the rate-limit error of the third.
\<close>

theorem C1_backoff_schedule:
  assumes "\<forall>t. market_chart e t c n = Inl (AxiosError (Some 429))"
  shows "fetchCoinHistory e c n w =
           (Inl (AxiosError (Some 429)),
            w\<lparr>trace := trace w @
                 [Request (MarketChart c n), Sleep 10000,
                  Request (MarketChart c n), Sleep 20000,
                  Request (MarketChart c n)]\<rparr>)"
  using assms
  by (simp add: fetchCoinHistory_def retry_def retry_from.simps [of _ _ 3]
        await_def get_market_chart_def sleep_def)

theorem C1_backoff_schedule_witness:
  "(\<forall>t. market_chart rate_limited_env t ''bitcoin'' 30 = Inl (AxiosError (Some 429))) \<and>
   fetchCoinHistory rate_limited_env ''bitcoin'' 30 empty_world =
     (Inl (AxiosError (Some 429)),
      empty_world\<lparr>trace := trace empty_world @
         [Request (MarketChart ''bitcoin'' 30), Sleep 10000,
          Request (MarketChart ''bitcoin'' 30), Sleep 20000,
          Request (MarketChart ''bitcoin'' 30)]\<rparr>)"
proof -
  have h: "\<forall>t. market_chart rate_limited_env t ''bitcoin'' 30 = Inl (AxiosError (Some 429))"
    by (simp add: rate_limited_env_def)
  show ?thesis
    using h C1_backoff_schedule [OF h, of empty_world] by simp
qed

subsection \<open>Zero oldest price in a trend\<close>

text \<open>
  C2: the division by the oldest price is not guarded. With an oldest price of 0 and a
  newest price of 50 the answer reports \<open>+Infinity%\<close>; with a single point of price 0
  it reports \<open>NaN%\<close>. Neither is the 0% the claim asks for.
\<close>

theorem C2_zero_oldest_price_unguarded:
  "fst (parseQuery sample_env ''Show me the 7-day trend of Bitcoin'' sample_db empty_world) =
     Inr \<lparr>answer = ''Here'' @ apos @ ''s the 7-day trend for Bitcoin: ''
             @ ''The price changed from $0.00 to $50.00, a +Infinity% change.'',
           data = Some (TrendData ''bitcoin'' ''Bitcoin'' 7
                    [(1699990000000, Fin 50), (1699900000000, Fin 0)])\<rparr> \<and>
   fst (parseQuery sample_env ''Show me the 7-day trend of Bitcoin'' zero_price_db empty_world) =
     Inr \<lparr>answer = ''Here'' @ apos @ ''s the 7-day trend for Bitcoin: ''
             @ ''The price changed from $0.00 to $0.00, a NaN% change.'',
           data = Some (TrendData ''bitcoin'' ''Bitcoin'' 7 [(1699990000000, Fin 0)])\<rparr>"
  by code_simp

subsection \<open>Negative search results\<close>

text \<open>
  C3: a search without a match stores \<open>null\<close> under the search key, but the stored
  \<open>null\<close> reads back like a missing key, so the repeated search asks the provider for
  its coin index a second time.
\<close>

theorem C3_negative_result_not_reused:
  "(case searchCoin sample_env ''dogecoin'' empty_world of
      (r1, w1) \<Rightarrow>
        (case searchCoin sample_env ''dogecoin'' w1 of
           (r2, w2) \<Rightarrow>
             r1 = Inr None \<and> trace w1 = [Request CoinsList] \<and>
             store w1 ''crypto:search:dogecoin'' = Some (None, 3600) \<and>
             r2 = Inr None \<and> trace w2 = [Request CoinsList, Request CoinsList]))"
  by code_simp

subsection \<open>The parser never rejects\<close>

text \<open>
  C4: for every input text, every store and every behaviour of the provider and the
  cache, \<open>parseQuery\<close> resolves to a result, which carries an answer string; it never
  rejects.
\<close>

theorem C4_parseQuery_never_raises:
  "\<exists>r w'. parseQuery e query d w = (Inr r, w')"
  by (cases "classify query")
     (simp_all add: parseQuery_def handlePriceQuery_def handleTrendQuery_def
        handleVolumeQuery_def handleChangeQuery_def handleMarketCapQuery_def
        handleTopCoinsQuery_def try_catch_resolves, simp add: resolve_def)

text \<open>
  With the local store down the price handler's query rejects, and the parser still
  resolves, to the apology of that handler.
\<close>

theorem C4_parseQuery_never_raises_witness:
  "(\<exists>r w'. parseQuery rate_limited_env ''What is the price of Bitcoin?'' broken_db empty_world
      = (Inr r, w')) \<and>
   fst (select_coin broken_db ''bitcoin'' empty_world) = Inl DbError \<and>
   fst (parseQuery rate_limited_env ''What is the price of Bitcoin?'' broken_db empty_world) =
     Inr \<lparr>answer = ''Sorry, I encountered an error while fetching the price. ''
             @ ''Please try again later.'', data = None\<rparr>"
proof -
  have "fst (select_coin broken_db ''bitcoin'' empty_world) = Inl DbError"
    by (simp add: select_coin_def broken_db_def reject_def)
  moreover have
    "fst (parseQuery rate_limited_env ''What is the price of Bitcoin?'' broken_db empty_world) =
       Inr \<lparr>answer = ''Sorry, I encountered an error while fetching the price. ''
               @ ''Please try again later.'', data = None\<rparr>"
    by code_simp
  ultimately show ?thesis
    using C4_parseQuery_never_raises
      [of rate_limited_env "''What is the price of Bitcoin?''" broken_db empty_world]
    by simp
qed

subsection \<open>Rule priority\<close>

text \<open>
  C5: when at least one rule pattern matches the query (in particular when two or more
  do), the intent is that of the first matching rule in the order Price, Trend, Volume,
  Change, MarketCap, TopList; and "what is the price of bitcoin" is classified as Price.
\<close>

theorem C5_first_rule_wins:
  "(matching_rules query \<noteq> [] \<longrightarrow> intent_tag (classify query) = hd (matching_rules query)) \<and>
   classify ''what is the price of bitcoin'' = Price ''bitcoin''"
proof
  let ?q = "trim (toLowerCase query)"
  note defs = matching_rules_def rule_table_def rule_matches_def classify_def Let_def
  show "matching_rules query \<noteq> [] \<longrightarrow> intent_tag (classify query) = hd (matching_rules query)"
  proof (cases "rx_match price_rx ?q")
    case Some
    then show ?thesis by (simp add: defs)
  next
    case n1: None
    show ?thesis
    proof (cases "rx_match trend_rx ?q")
      case Some
      with n1 show ?thesis by (simp add: defs)
    next
      case n2: None
      show ?thesis
      proof (cases "rx_match volume_rx ?q")
        case Some
        with n1 n2 show ?thesis by (simp add: defs)
      next
        case n3: None
        show ?thesis
        proof (cases "rx_match change_rx ?q")
          case Some
          with n1 n2 n3 show ?thesis by (simp add: defs)
        next
          case n4: None
          show ?thesis
          proof (cases "rx_match marketCap_rx ?q")
            case Some
            with n1 n2 n3 n4 show ?thesis by (simp add: defs)
          next
            case n5: None
            show ?thesis
            proof (cases "rx_match topCoins_rx ?q")
              case Some
              with n1 n2 n3 n4 n5 show ?thesis by (simp add: defs)
            next
              case None
              with n1 n2 n3 n4 n5 show ?thesis by (simp add: defs)
            qed
          qed
        qed
      qed
    qed
  qed
  show "classify ''what is the price of bitcoin'' = Price ''bitcoin''"
    by code_simp
qed

text \<open>A query that matches two patterns, Price and Change: it is classified as Price.\<close>

theorem C5_first_rule_wins_witness:
  "matching_rules ''price of change of bitcoin'' = [PriceTag, ChangeTag] \<and>
   intent_tag (classify ''price of change of bitcoin'') = PriceTag"
proof -
  have h: "matching_rules ''price of change of bitcoin'' = [PriceTag, ChangeTag]"
    by code_simp
  then have "matching_rules ''price of change of bitcoin'' \<noteq> []"
    by simp
  with C5_first_rule_wins [of "''price of change of bitcoin''"] h show ?thesis
    by simp
qed

subsection \<open>Local data wins\<close>

text \<open>
  C6: when the local store answers and holds a coin under the lower-cased name, each
  of the four single-coin handlers (price, volume, change, market cap) answers from that
  local row and returns the world unchanged: no request goes to the provider and the
  cache is not touched.
\<close>

theorem C6_local_hit_short_circuits:
  assumes "db_up d"
    and "find (\<lambda>c. coingeckoId c = toLowerCase coinName) (coins d) = Some c"
  shows "handlePriceQuery e coinName d w =
           (Inr \<lparr>answer = ''The current price of '' @ name c @ '' ('' @ toUpperCase (symbol c)
                   @ '') is $'' @ toLocaleString2 (parseFloat (or_zero (currentPrice c))),
                 data = None\<rparr>, w) \<and>
         handleVolumeQuery e coinName d w =
           (Inr \<lparr>answer = ''The 24-hour trading volume of '' @ name c @ '' (''
                   @ toUpperCase (symbol c) @ '') is $''
                   @ toLocaleString2 (parseFloat (or_zero (volume24h c))),
                 data = None\<rparr>, w) \<and>
         handleChangeQuery e coinName d w =
           (Inr \<lparr>answer = ''The 24-hour price change of '' @ name c @ '' (''
                   @ toUpperCase (symbol c) @ '') is ''
                   @ (if js_ge0 (parseFloat (or_zero (priceChange24h c))) then ''+'' else [])
                   @ toFixed2 (parseFloat (or_zero (priceChange24h c))) @ ''%'',
                 data = None\<rparr>, w) \<and>
         handleMarketCapQuery e coinName d w =
           (Inr \<lparr>answer = ''The market capitalization of '' @ name c @ '' (''
                   @ toUpperCase (symbol c) @ '') is $''
                   @ toLocaleString2
                       (Fin (of_int (case marketCap c of None \<Rightarrow> 0 | Some v \<Rightarrow> v))),
                 data = None\<rparr>, w)"
proof -
  have sel: "select_coin d (toLowerCase coinName) w = (Inr [c], w)"
    using assms by (rule select_coin_hit)
  show ?thesis
    by (simp add: handlePriceQuery_def handleVolumeQuery_def handleChangeQuery_def
          handleMarketCapQuery_def try_catch_def await_def resolve_def sel Let_def)
qed

text \<open>
  Bitcoin is in the local store at 45000.50 and the provider quotes 45123.45: the answer
  carries the local price and the trace stays empty.
\<close>

theorem C6_local_hit_short_circuits_witness:
  "db_up sample_db \<and>
   find (\<lambda>c. coingeckoId c = toLowerCase ''Bitcoin'') (coins sample_db) = Some bitcoin_row \<and>
   handlePriceQuery sample_env ''Bitcoin'' sample_db empty_world =
     (Inr \<lparr>answer = ''The current price of Bitcoin (BTC) is $45,000.50'', data = None\<rparr>,
      empty_world) \<and>
   trace (snd (handleVolumeQuery sample_env ''Bitcoin'' sample_db empty_world)) = [] \<and>
   trace (snd (handleChangeQuery sample_env ''Bitcoin'' sample_db empty_world)) = [] \<and>
   trace (snd (handleMarketCapQuery sample_env ''Bitcoin'' sample_db empty_world)) = []"
proof -
  have h1: "db_up sample_db"
    by (simp add: sample_db_def)
  have fields: "name bitcoin_row = ''Bitcoin''" "symbol bitcoin_row = ''btc''"
    "currentPrice bitcoin_row = Some ''45000.50''"
    by (simp_all add: bitcoin_row_def)
  have emp: "trace empty_world = []"
    by (simp add: empty_world_def)
  show ?thesis
    using h1 bitcoin_row_found
      C6_local_hit_short_circuits [OF h1 bitcoin_row_found, of sample_env empty_world]
    by (simp add: fields bitcoin_price_text btc_upper emp)
qed

subsection \<open>Cache gateway\<close>

text \<open>
  C7: for every key, value and TTL, when the cache store is not configured or its
  \<open>get\<close> rejects, \<open>getCached\<close> resolves to \<open>null\<close>; when it is not configured or its
  \<open>setex\<close> rejects, \<open>setCached\<close> resolves and leaves the world as it is; and neither
  operation ever rejects.
\<close>

theorem C7_cache_never_raises:
  "(\<not> hasRedis e \<or> redis_get_throws e key \<longrightarrow> getCached e key w = (Inr None, w)) \<and>
   (\<not> hasRedis e \<or> redis_setex_throws e key \<longrightarrow> setCached e key v ttl w = (Inr (), w)) \<and>
   (\<exists>r. getCached e key w = (Inr r, w)) \<and>
   (\<exists>w'. setCached e key v ttl w = (Inr (), w'))"
  by (simp add: getCached_def setCached_def try_catch_def await_def resolve_def
        redis_get_def redis_setex_def)

theorem C7_cache_never_raises_witness:
  "\<not> hasRedis rate_limited_env \<and>
   getCached rate_limited_env ''crypto:search:bitcoin'' empty_world = (Inr None, empty_world) \<and>
   setCached rate_limited_env ''crypto:search:bitcoin'' (Some bitcoin_market) 3600 empty_world
     = (Inr (), empty_world) \<and>
   redis_get_throws failing_cache_env ''crypto:search:bitcoin'' \<and>
   redis_setex_throws failing_cache_env ''crypto:search:bitcoin'' \<and>
   getCached failing_cache_env ''crypto:search:bitcoin'' empty_world = (Inr None, empty_world) \<and>
   setCached failing_cache_env ''crypto:search:bitcoin'' (Some bitcoin_market) 3600 empty_world
     = (Inr (), empty_world)"
proof -
  have h1: "\<not> hasRedis rate_limited_env"
    by (simp add: rate_limited_env_def)
  have h2: "redis_get_throws failing_cache_env ''crypto:search:bitcoin''"
    and h3: "redis_setex_throws failing_cache_env ''crypto:search:bitcoin''"
    by (simp_all add: failing_cache_env_def)
  show ?thesis
    using h1 h2 h3
      C7_cache_never_raises [of rate_limited_env "''crypto:search:bitcoin''" empty_world
        "Some bitcoin_market" 3600]
      C7_cache_never_raises [of failing_cache_env "''crypto:search:bitcoin''" empty_world
        "Some bitcoin_market" 3600]
    by simp
qed

subsection \<open>The price scenario\<close>

text \<open>
  C8: for the query "What is the price of Bitcoin?", when the local store answers and
  holds, under the identifier "bitcoin", a coin with name "Bitcoin", symbol "btc" and
  currentPrice "45000.50", the answer is exactly
  "The current price of Bitcoin (BTC) is $45,000.50".
\<close>

theorem C8_price_of_bitcoin:
  assumes "db_up d"
    and "find (\<lambda>c. coingeckoId c = ''bitcoin'') (coins d) = Some c"
    and "name c = ''Bitcoin''" and "symbol c = ''btc''"
    and "currentPrice c = Some ''45000.50''"
  shows "parseQuery e ''What is the price of Bitcoin?'' d w =
           (Inr \<lparr>answer = ''The current price of Bitcoin (BTC) is $45,000.50'', data = None\<rparr>, w)"
proof -
  have cl: "classify ''What is the price of Bitcoin?'' = Price ''bitcoin''"
    by code_simp
  have lc: "toLowerCase ''bitcoin'' = ''bitcoin''"
    by code_simp
  have sel: "select_coin d ''bitcoin'' w = (Inr [c], w)"
    using assms(1,2) by (rule select_coin_hit)
  show ?thesis
    using assms(3-5)
    by (simp add: parseQuery_def cl handlePriceQuery_def try_catch_def await_def resolve_def
          lc sel btc_upper bitcoin_price_text)
qed

theorem C8_price_of_bitcoin_witness:
  "db_up sample_db \<and>
   find (\<lambda>c. coingeckoId c = ''bitcoin'') (coins sample_db) = Some bitcoin_row \<and>
   name bitcoin_row = ''Bitcoin'' \<and> symbol bitcoin_row = ''btc'' \<and>
   currentPrice bitcoin_row = Some ''45000.50'' \<and>
   parseQuery sample_env ''What is the price of Bitcoin?'' sample_db empty_world =
     (Inr \<lparr>answer = ''The current price of Bitcoin (BTC) is $45,000.50'', data = None\<rparr>,
      empty_world)"
proof -
  have h1: "db_up sample_db"
    by (simp add: sample_db_def)
  have h2: "find (\<lambda>c. coingeckoId c = ''bitcoin'') (coins sample_db) = Some bitcoin_row"
    by (simp add: sample_db_def bitcoin_row_def)
  have h3: "name bitcoin_row = ''Bitcoin''" and h4: "symbol bitcoin_row = ''btc''"
    and h5: "currentPrice bitcoin_row = Some ''45000.50''"
    by (simp_all add: bitcoin_row_def)
  show ?thesis
    using h1 h2 h3 h4 h5 C8_price_of_bitcoin [OF h1 h2 h3 h4 h5, of sample_env empty_world]
    by simp
qed

subsection \<open>Trend queries without a day count\<close>

text \<open>
  C9: the trend pattern requires the word "day" before "trend" or "history", so
  "trend of bitcoin", which the source's comment on the rule gives as an example of a
  trend query, matches no rule and gets the help text instead of a 30-day trend.
  Where the pattern does match without digits ("day trend of bitcoin") the day count is
  30.
\<close>

theorem C9_trend_without_day_unrecognised:
  "classify ''trend of bitcoin'' = Unknown \<and>
   parseQuery e ''trend of bitcoin'' d w = (Inr \<lparr>answer = help_text, data = None\<rparr>, w) \<and>
   classify ''day trend of bitcoin'' = Trend ''bitcoin'' 30"
proof -
  have u: "classify ''trend of bitcoin'' = Unknown"
    by code_simp
  have t: "classify ''day trend of bitcoin'' = Trend ''bitcoin'' 30"
    by code_simp
  show ?thesis
    by (simp add: parseQuery_def resolve_def u t)
qed

subsection \<open>Local lookup by identifier only\<close>



end
